theory Spec2Isabelle
  imports Main "HOL-Library.AList" "HOL-Library.Multiset"
begin

section \<open>Python strings\<close>

text \<open>
  A Python \<open>str\<close> is modelled as a \<open>string\<close> whose characters are the code points
  0..255. On these code points \<open>str.isspace\<close>, \<open>str.lower\<close>, \<open>str.strip\<close>,
  \<open>str.startswith\<close> and the substring test \<open>in\<close> behave as defined below.
\<close>

definition is_space :: "char \<Rightarrow> bool" where
  "is_space c =
     (let n = (of_char c :: nat)
      in (9 \<le> n \<and> n \<le> 13) \<or> (28 \<le> n \<and> n \<le> 32) \<or> n = 133 \<or> n = 160)"

definition lower_char :: "char \<Rightarrow> char" where
  "lower_char c =
     (let n = (of_char c :: nat)
      in if (65 \<le> n \<and> n \<le> 90) \<or> (192 \<le> n \<and> n \<le> 222 \<and> n \<noteq> 215)
         then char_of (n + 32) else c)"

definition lower :: "string \<Rightarrow> string" where
  "lower s = map lower_char s"

definition strip :: "string \<Rightarrow> string" where
  "strip s = rev (dropWhile is_space (rev (dropWhile is_space s)))"

fun startswith :: "string \<Rightarrow> string \<Rightarrow> bool" where
  "startswith s [] = True"
| "startswith [] (p # ps) = False"
| "startswith (c # cs) (p # ps) = (c = p \<and> startswith cs ps)"

text \<open>\<open>str_in needle hay\<close> is Python's \<open>needle in hay\<close> on strings.\<close>

fun str_in :: "string \<Rightarrow> string \<Rightarrow> bool" where
  "str_in needle [] = (needle = [])"
| "str_in needle (c # cs) = (startswith (c # cs) needle \<or> str_in needle cs)"

text \<open>Truthiness of a value that is \<open>None\<close> or a string.\<close>

fun truthy :: "string option \<Rightarrow> bool" where
  "truthy None = False"
| "truthy (Some s) = (s \<noteq> [])"

section \<open>Auction records\<close>

text \<open>
  The dictionary built by \<open>extract_auction_from_row\<close>. \<open>url\<close>, \<open>image_url\<close> and
  \<open>image_path\<close> may hold \<open>None\<close> (\<open>get_attribute\<close> and \<open>download_image\<close> return it).
\<close>

record auction =
  title :: string
  url :: "string option"
  current_bid :: string
  end_time :: string
  location :: string
  condition :: string
  image_url :: "string option"
  image_path :: "string option"
  search_term :: string

section \<open>Deduplication (scraper.py, \<open>remove_duplicates\<close>)\<close>

record dedupe_state =
  seen_urls :: "string set"
  seen_titles :: "string set"
  unique_auctions :: "auction list"

text \<open>One iteration of the \<open>for auction in auctions\<close> loop.\<close>

definition dedupe_step :: "auction \<Rightarrow> dedupe_state \<Rightarrow> dedupe_state" where
  "dedupe_step a s =
     (let u = url a; t = strip (lower (title a))
      in if truthy u \<and> the u \<notin> seen_urls s
         then s\<lparr>seen_urls := insert (the u) (seen_urls s),
                unique_auctions := unique_auctions s @ [a]\<rparr>
         else if \<not> truthy u \<and> t \<noteq> [] \<and> t \<notin> seen_titles s
         then s\<lparr>seen_titles := insert t (seen_titles s),
                unique_auctions := unique_auctions s @ [a]\<rparr>
         else s)"

definition dedupe_init :: dedupe_state where
  "dedupe_init = \<lparr>seen_urls = {}, seen_titles = {}, unique_auctions = []\<rparr>"

definition remove_duplicates :: "auction list \<Rightarrow> auction list" where
  "remove_duplicates auctions = unique_auctions (fold dedupe_step auctions dedupe_init)"

text \<open>
  The key a record is compared by: its url when that is non-empty, otherwise its
  lower-cased, trimmed title. The two key spaces are kept apart, as the two sets are.
\<close>

definition dedup_key :: "auction \<Rightarrow> string + string" where
  "dedup_key a = (if truthy (url a) then Inl (the (url a)) else Inr (strip (lower (title a))))"

definition has_key :: "auction \<Rightarrow> bool" where
  "has_key a = (truthy (url a) \<or> strip (lower (title a)) \<noteq> [])"

definition blank :: "string \<Rightarrow> bool" where
  "blank s = list_all is_space s"

text \<open>
  Follows the spec's words: a record is kept exactly when its key has not occurred
  earlier in the sequence.
\<close>

definition dedupe_spec :: "auction list \<Rightarrow> auction list" where
  "dedupe_spec xs =
     map (\<lambda>i. xs ! i)
       (filter (\<lambda>i. dedup_key (xs ! i) \<notin> dedup_key ` set (take i xs)) [0..<length xs])"

definition mk_auction :: "string \<Rightarrow> string option \<Rightarrow> string \<Rightarrow> auction" where
  "mk_auction t u term =
     \<lparr>title = t, url = u, current_bid = [], end_time = [], location = [], condition = [],
      image_url = None, image_path = None, search_term = term\<rparr>"

section \<open>Rendered rows\<close>

text \<open>
  What the browser reports about a table row. An element has a tag name, its visible
  text and the attributes \<open>get_attribute\<close> reads (\<open>None\<close> when absent). A cell is a
  \<open>td\<close> of the row with its text and its descendant elements in document order; a row
  is the list of its cells, as \<open>row_element.find_elements(By.TAG_NAME, 'td')\<close> returns
  it, and every element of the row lies in one of the cells.
\<close>

record element =
  tag_name :: string
  elem_text :: string
  attributes :: "(string \<times> string) list"

record cell =
  cell_text :: string
  descendants :: "element list"

type_synonym row = "cell list"

definition get_attribute :: "element \<Rightarrow> string \<Rightarrow> string option" where
  "get_attribute e name = map_of (attributes e) name"

text \<open>\<open>cell.find_elements(By.TAG_NAME, t)\<close>, and \<open>find_element\<close> with \<open>None\<close> for
  \<open>NoSuchElementException\<close>.\<close>

definition find_elements :: "cell \<Rightarrow> string \<Rightarrow> element list" where
  "find_elements c t = filter (\<lambda>e. tag_name e = t) (descendants c)"

definition find_element :: "cell \<Rightarrow> string \<Rightarrow> element option" where
  "find_element c t = (case find_elements c t of [] \<Rightarrow> None | e # _ \<Rightarrow> Some e)"

text \<open>\<open>row_element.find_elements(By.TAG_NAME, t)\<close>.\<close>

definition row_find_elements :: "row \<Rightarrow> string \<Rightarrow> element list" where
  "row_find_elements r t = concat (map (\<lambda>c. find_elements c t) r)"

text \<open>The XPath predicate
  \<open>@onclick or @data-href or @data-url or contains(@class, 'link') or contains(@class, 'clickable')\<close>.\<close>

definition class_of :: "element \<Rightarrow> string" where
  "class_of e = (case get_attribute e ''class'' of None \<Rightarrow> [] | Some c \<Rightarrow> c)"

definition clickable :: "element \<Rightarrow> bool" where
  "clickable e =
     (get_attribute e ''onclick'' \<noteq> None \<or> get_attribute e ''data-href'' \<noteq> None \<or>
      get_attribute e ''data-url'' \<noteq> None \<or>
      str_in ''link'' (class_of e) \<or> str_in ''clickable'' (class_of e))"

text \<open>Python's \<open>a or b\<close> on values that are \<open>None\<close> or strings.\<close>

definition py_or :: "string option \<Rightarrow> string option \<Rightarrow> string option" where
  "py_or a b = (if truthy a then a else b)"

text \<open>The attribute chain of strategy 2:
  \<open>onclick or data-href or data-url or href\<close>.\<close>

definition clickable_url :: "element \<Rightarrow> string option" where
  "clickable_url elem =
     py_or (get_attribute elem ''onclick'')
       (py_or (get_attribute elem ''data-href'')
          (py_or (get_attribute elem ''data-url'') (get_attribute elem ''href'')))"

section \<open>Title and URL extraction (\<open>extract_auction_from_row\<close>, strategies 1 to 4)\<close>

text \<open>The \<open>for link in all_links\<close> loop of strategy 3: the first link whose href is
  non-empty and contains \<open>itemDetails\<close> or \<open>auction\<close>, at which the loop breaks.\<close>

fun find_auction_link :: "element list \<Rightarrow> element option" where
  "find_auction_link [] = None"
| "find_auction_link (link # links) =
     (let href = get_attribute link ''href''
      in if truthy href \<and> (str_in ''itemDetails'' (the href) \<or> str_in ''auction'' (the href))
         then Some link else find_auction_link links)"

text \<open>
  The body of strategy 3, which is the same text in both files. It reads and writes the
  local variables \<open>title\<close> and \<open>auction_url\<close> (their values on entry are \<open>title0\<close> and
  \<open>auction_url0\<close>); \<open>cells\<close> has at least 7 entries here.
\<close>

definition strategy3 :: "row \<Rightarrow> string \<Rightarrow> string option \<Rightarrow> string \<times> string option" where
  "strategy3 cells title0 auction_url0 =
     (let all_links = row_find_elements cells ''a''
      in if all_links \<noteq> [] then
           (let (title1, auction_url1) =
                  (case find_auction_link all_links of
                     Some link \<Rightarrow>
                       (if title0 = []
                        then (if strip (elem_text link) \<noteq> [] then strip (elem_text link)
                              else strip (cell_text (cells ! 1)))
                        else title0,
                        get_attribute link ''href'')
                   | None \<Rightarrow> (title0, auction_url0))
            in if \<not> truthy auction_url1
               then (title1, get_attribute (hd all_links) ''href'')
               else (title1, auction_url1))
         else (title0, auction_url0))"

text \<open>
  scraper.py, lines 139 to 190. Strategies 2, 3 and 4 are inside the handler of the
  \<open>NoSuchElementException\<close> of strategy 1; strategy 3 is the handler of strategy 2, which
  raises when it finds no clickable element.
\<close>

definition extract_title_url :: "row \<Rightarrow> string \<times> string option" where
  "extract_title_url cells =
     (case find_element (cells ! 1) ''a'' of
        Some link_elem \<Rightarrow> (strip (elem_text link_elem), get_attribute link_elem ''href'')
      | None \<Rightarrow>
          (let (title, auction_url) =
                 (case filter clickable (descendants (cells ! 1)) of
                    elem # _ \<Rightarrow> (strip (cell_text (cells ! 1)), clickable_url elem)
                  | [] \<Rightarrow> strategy3 cells [] (Some []))
           in (if title = [] then strip (cell_text (cells ! 1)) else title, auction_url)))"

text \<open>
  comprehensive_debug.py, lines 121 to 181. Here strategy 2 does not raise, and
  strategy 3 runs whenever \<open>auction_url\<close> is still empty.
\<close>

definition extract_title_url_comprehensive :: "row \<Rightarrow> string \<times> string option" where
  "extract_title_url_comprehensive cells =
     (case find_element (cells ! 1) ''a'' of
        Some link_elem \<Rightarrow> (strip (elem_text link_elem), get_attribute link_elem ''href'')
      | None \<Rightarrow>
          (let (title, auction_url) =
                 (case filter clickable (descendants (cells ! 1)) of
                    elem # _ \<Rightarrow> (strip (cell_text (cells ! 1)), clickable_url elem)
                  | [] \<Rightarrow> ([], Some []));
               (title, auction_url) =
                 (if \<not> truthy auction_url then strategy3 cells title auction_url
                  else (title, auction_url))
           in (if title = [] then strip (cell_text (cells ! 1)) else title, auction_url)))"

text \<open>
  Follows the spec's words: a chain of four strategies in which strategy 3 runs whenever
  no URL candidate was established and strategy 4 whenever no title was established,
  whichever of the earlier strategies ran.
\<close>

definition title_url_chain :: "row \<Rightarrow> string \<times> string option" where
  "title_url_chain cells =
     (let (title, auction_url) =
            (case find_element (cells ! 1) ''a'' of
               Some link_elem \<Rightarrow> (strip (elem_text link_elem), get_attribute link_elem ''href'')
             | None \<Rightarrow>
                 (case filter clickable (descendants (cells ! 1)) of
                    elem # _ \<Rightarrow> (strip (cell_text (cells ! 1)), clickable_url elem)
                  | [] \<Rightarrow> ([], Some [])));
          (title, auction_url) =
            (if \<not> truthy auction_url then strategy3 cells title auction_url
             else (title, auction_url))
      in (if title = [] then strip (cell_text (cells ! 1)) else title, auction_url))"

section \<open>URL cleaning (\<open>extract_auction_from_row\<close>, "Clean and make URL absolute")\<close>

text \<open>\<open>re.search(r'(https?://[^\s\'"]+)', s)\<close>: the leftmost match, its last part greedy.\<close>

definition url_char :: "char \<Rightarrow> bool" where
  "url_char c = (\<not> is_space c \<and> c \<noteq> CHR 0x27 \<and> c \<noteq> CHR 0x22)"

definition match_url_at :: "string \<Rightarrow> string option" where
  "match_url_at s =
     (if startswith s ''https://'' \<and> takeWhile url_char (drop 8 s) \<noteq> []
      then Some (''https://'' @ takeWhile url_char (drop 8 s))
      else if startswith s ''http://'' \<and> takeWhile url_char (drop 7 s) \<noteq> []
      then Some (''http://'' @ takeWhile url_char (drop 7 s))
      else None)"

fun re_search_url :: "string \<Rightarrow> string option" where
  "re_search_url [] = None"
| "re_search_url (c # cs) =
     (case match_url_at (c # cs) of Some m \<Rightarrow> Some m | None \<Rightarrow> re_search_url cs)"

definition clean_url :: "string option \<Rightarrow> string option" where
  "clean_url auction_url =
     (if truthy auction_url then
        (let u = the auction_url;
             u = (if str_in ''javascript:'' u \<or> str_in ''onclick'' u
                  then (case re_search_url u of Some m \<Rightarrow> m | None \<Rightarrow> u)
                  else u);
             u = (if u \<noteq> [] \<and> \<not> startswith u ''http''
                  then (if startswith u ''/'' then ''https://www.bidft.auction'' @ u
                        else if startswith u ''www.bidfta.com'' then ''https://'' @ u
                        else ''https://www.bidft.auction/'' @ u)
                  else u)
         in Some u)
      else auction_url)"

section \<open>Record extraction (\<open>extract_auction_from_row\<close>)\<close>

text \<open>
  The collaborators outside the repository: \<open>urllib.parse.urljoin\<close>, the file name
  built from \<open>hash\<close> and the clock, and the download itself, which returns the path of
  the saved file or \<open>None\<close>.
\<close>

record env =
  urljoin :: "string \<Rightarrow> string \<Rightarrow> string"
  image_filename :: "string \<Rightarrow> string"
  download_image :: "string \<Rightarrow> string \<Rightarrow> string option"

definition base_url :: string where
  "base_url = ''https://www.bidft.auction''"

definition extract_image_url :: "env \<Rightarrow> row \<Rightarrow> string option" where
  "extract_image_url E cells =
     (case find_element (cells ! 0) ''img'' of
        None \<Rightarrow> Some []
      | Some img_elem \<Rightarrow>
          (let image_url = get_attribute img_elem ''src''
           in if truthy image_url \<and> \<not> startswith (the image_url) ''http''
              then Some (urljoin E base_url (the image_url)) else image_url))"

definition extract_auction_from_row :: "env \<Rightarrow> row \<Rightarrow> string \<Rightarrow> auction option" where
  "extract_auction_from_row E row_element term =
     (let cells = row_element
      in if length cells < 7 then None
         else
           (let (title, auction_url) = extract_title_url cells;
                auction_url = clean_url auction_url;
                image_url = extract_image_url E cells;
                condition = strip (cell_text (cells ! 3));
                location = strip (cell_text (cells ! 4));
                end_time = strip (cell_text (cells ! 5));
                current_bid = strip (cell_text (cells ! 6));
                image_path =
                  (if truthy image_url
                   then download_image E (the image_url)
                          (image_filename E (if truthy auction_url then the auction_url else title))
                   else None)
            in Some \<lparr>title = title, url = auction_url, current_bid = current_bid,
                     end_time = end_time, location = location, condition = condition,
                     image_url = image_url, image_path = image_path,
                     search_term = term\<rparr>))"

text \<open>The record of comprehensive_debug.py: no \<open>image_path\<close>, and the row number.\<close>

record debug_auction =
  dbg_title :: string
  dbg_url :: "string option"
  dbg_current_bid :: string
  dbg_end_time :: string
  dbg_location :: string
  dbg_condition :: string
  dbg_image_url :: "string option"
  dbg_search_term :: string
  dbg_row_number :: int

definition extract_auction_from_row_comprehensive ::
  "env \<Rightarrow> row \<Rightarrow> string \<Rightarrow> int \<Rightarrow> debug_auction option" where
  "extract_auction_from_row_comprehensive E row_element term row_number =
     (let cells = row_element
      in if length cells < 7 then None
         else
           (let (title, auction_url) = extract_title_url_comprehensive cells;
                auction_url = clean_url auction_url;
                condition = strip (cell_text (cells ! 3));
                location = strip (cell_text (cells ! 4));
                end_time = strip (cell_text (cells ! 5));
                current_bid = strip (cell_text (cells ! 6));
                image_url = extract_image_url E cells
            in Some \<lparr>dbg_title = title, dbg_url = auction_url, dbg_current_bid = current_bid,
                     dbg_end_time = end_time, dbg_location = location,
                     dbg_condition = condition, dbg_image_url = image_url,
                     dbg_search_term = term, dbg_row_number = row_number\<rparr>))"

section \<open>Criteria filter (scraper.py, \<open>meets_criteria\<close>)\<close>

text \<open>The two lists of config.py the filter and the query read:
  \<open>CINCINNATI_LOCATIONS\<close> and \<open>FILTERS['condition']\<close>.\<close>

record config =
  cincinnati_locations :: "string list"
  filters_condition :: "string list"

definition meets_criteria :: "config \<Rightarrow> auction \<Rightarrow> bool" where
  "meets_criteria C auction_data =
     (if title auction_data = [] \<or> location auction_data = [] then False
      else
        (let loc = lower (location auction_data);
             location_match =
               list_ex (\<lambda>cin_location. str_in (lower cin_location) loc) (cincinnati_locations C)
         in if \<not> location_match then False
            else
              (let cond = lower (condition auction_data);
                   condition_match =
                     list_ex (\<lambda>filter_condition. str_in (lower filter_condition) cond)
                       (filters_condition C)
               in if \<not> condition_match then False else True)))"

section \<open>Date window (\<open>get_week_date_range\<close>)\<close>

text \<open>
  A \<open>datetime\<close> is the proleptic Gregorian ordinal of its date (\<open>toordinal()\<close>, day 1 is
  0001-01-01, a Monday) and its time of day in microseconds. Adding a \<open>timedelta\<close> of
  whole days keeps the time of day and raises \<open>OverflowError\<close> when the date leaves
  0001-01-01 .. 9999-12-31 (ordinals 1 .. 3652059).
\<close>

record datetime =
  ordinal :: int
  time_of_day :: nat

definition max_ordinal :: int where
  "max_ordinal = 3652059"

definition weekday :: "datetime \<Rightarrow> int" where
  "weekday d = (ordinal d + 6) mod 7"

definition add_days :: "datetime \<Rightarrow> int \<Rightarrow> datetime option" where
  "add_days d n =
     (if 0 < ordinal d + n \<and> ordinal d + n \<le> max_ordinal
      then Some (d\<lparr>ordinal := ordinal d + n\<rparr>) else None)"

text \<open>
  \<open>d.strftime('%Y-%m-%dT04:00:00.000Z')\<close>: the characters after \<open>%d\<close> are copied as they
  are; \<open>strftime_ymd\<close> is the library's rendering of \<open>%Y-%m-%d\<close>, a function of the date.
\<close>

definition strftime_T04 :: "(int \<Rightarrow> string) \<Rightarrow> datetime \<Rightarrow> string" where
  "strftime_T04 strftime_ymd d = strftime_ymd (ordinal d) @ ''T04:00:00.000Z''"

text \<open>The two datetimes of scraper.py's window, \<open>sunday\<close> and \<open>next_sunday\<close>.\<close>

definition week_window :: "datetime \<Rightarrow> (datetime \<times> datetime) option" where
  "week_window now =
     (let days_since_sunday = (weekday now + 1) mod 7
      in case add_days now (- days_since_sunday) of
           None \<Rightarrow> None
         | Some sunday \<Rightarrow>
             (case add_days sunday 7 of
                None \<Rightarrow> None
              | Some next_sunday \<Rightarrow> Some (sunday, next_sunday)))"

definition get_week_date_range :: "(int \<Rightarrow> string) \<Rightarrow> datetime \<Rightarrow> (string \<times> string) option" where
  "get_week_date_range strftime_ymd now =
     (case week_window now of
        None \<Rightarrow> None
      | Some (sunday, next_sunday) \<Rightarrow>
          Some (strftime_T04 strftime_ymd sunday, strftime_T04 strftime_ymd next_sunday))"

text \<open>comprehensive_debug.py: \<open>sunday\<close> and \<open>saturday\<close>, or 30 days either side of now
  when \<open>ignore_dates\<close> is set.\<close>

definition week_window_debug :: "bool \<Rightarrow> datetime \<Rightarrow> (datetime \<times> datetime) option" where
  "week_window_debug ignore_dates now =
     (if ignore_dates then
        (case add_days now (- 30) of
           None \<Rightarrow> None
         | Some start \<Rightarrow>
             (case add_days now 30 of None \<Rightarrow> None | Some end' \<Rightarrow> Some (start, end')))
      else
        (let days_since_sunday = (weekday now + 1) mod 7
         in case add_days now (- days_since_sunday) of
              None \<Rightarrow> None
            | Some sunday \<Rightarrow>
                (case add_days sunday 6 of
                   None \<Rightarrow> None
                 | Some saturday \<Rightarrow> Some (sunday, saturday))))"

definition get_week_date_range_debug ::
  "(int \<Rightarrow> string) \<Rightarrow> bool \<Rightarrow> datetime \<Rightarrow> (string \<times> string) option" where
  "get_week_date_range_debug strftime_ymd ignore_dates now =
     (case week_window_debug ignore_dates now of
        None \<Rightarrow> None
      | Some (start, end') \<Rightarrow>
          Some (strftime_T04 strftime_ymd start, strftime_T04 strftime_ymd end'))"

section \<open>Query builder (\<open>build_search_url\<close>)\<close>

text \<open>
  \<open>json.dumps(search_params, separators=(',', ':'))\<close> on the values the query holds:
  strings, booleans, lists, and dictionaries in insertion order. Strings are escaped as
  \<open>ensure_ascii\<close> does.
\<close>

datatype json = JString string | JBool bool | JArray "json list" | JObject "(string \<times> json) list"

definition hex_digit :: "nat \<Rightarrow> char" where
  "hex_digit n = ''0123456789abcdef'' ! n"

definition json_escape_char :: "char \<Rightarrow> string" where
  "json_escape_char c =
     (let n = (of_char c :: nat)
      in if c = CHR 0x22 then [CHR 0x5C, CHR 0x22]
         else if c = CHR 0x5C then [CHR 0x5C, CHR 0x5C]
         else if c = CHR 0x0A then [CHR 0x5C, CHR ''n'']
         else if c = CHR 0x0D then [CHR 0x5C, CHR ''r'']
         else if c = CHR 0x09 then [CHR 0x5C, CHR ''t'']
         else if c = CHR 0x08 then [CHR 0x5C, CHR ''b'']
         else if c = CHR 0x0C then [CHR 0x5C, CHR ''f'']
         else if 32 \<le> n \<and> n \<le> 126 then [c]
         else [CHR 0x5C, CHR ''u'', CHR ''0'', CHR ''0'', hex_digit (n div 16), hex_digit (n mod 16)])"

definition json_string :: "string \<Rightarrow> string" where
  "json_string s = [CHR 0x22] @ concat (map json_escape_char s) @ [CHR 0x22]"

fun join :: "string \<Rightarrow> string list \<Rightarrow> string" where
  "join sep [] = []"
| "join sep [x] = x"
| "join sep (x # y # ys) = x @ sep @ join sep (y # ys)"

fun dumps :: "json \<Rightarrow> string" where
  "dumps (JString s) = json_string s"
| "dumps (JBool b) = (if b then ''true'' else ''false'')"
| "dumps (JArray xs) = ''['' @ join '','' (map dumps xs) @ '']''"
| "dumps (JObject kvs) =
     ''{'' @ join '','' (map (\<lambda>kv. json_string (fst kv) @ '':'' @ dumps (snd kv)) kvs) @ ''}''"

text \<open>\<open>str.encode()\<close>: UTF-8, as byte values.\<close>

definition utf8_char :: "char \<Rightarrow> nat list" where
  "utf8_char c =
     (let n = (of_char c :: nat)
      in if n < 128 then [n] else [192 + n div 64, 128 + n mod 64])"

definition encode :: "string \<Rightarrow> nat list" where
  "encode s = concat (map utf8_char s)"

text \<open>\<open>base64.b64encode(...).decode()\<close>.\<close>

definition b64_char :: "nat \<Rightarrow> char" where
  "b64_char n = ''ABCDEFGHIJKLMNOPQRSTUVWXYZabcdefghijklmnopqrstuvwxyz0123456789+/'' ! n"

fun b64encode :: "nat list \<Rightarrow> string" where
  "b64encode [] = []"
| "b64encode [a] = [b64_char (a div 4), b64_char (a mod 4 * 16), CHR ''='', CHR ''='']"
| "b64encode [a, b] =
     [b64_char (a div 4), b64_char (a mod 4 * 16 + b div 16), b64_char (b mod 16 * 4), CHR ''='']"
| "b64encode (a # b # c # rest) =
     [b64_char (a div 4), b64_char (a mod 4 * 16 + b div 16),
      b64_char (b mod 16 * 4 + c div 64), b64_char (c mod 64)] @ b64encode rest"

text \<open>The dictionary \<open>search_params\<close>, its keys in the order the source writes them.\<close>

definition search_params :: "config \<Rightarrow> string \<Rightarrow> string \<Rightarrow> string \<Rightarrow> json" where
  "search_params C term newer older =
     JObject
       [(''searchTerm'', JString term),
        (''locations'', JArray (map JString (cincinnati_locations C))),
        (''conditions'', JArray (map JString (filters_condition C))),
        (''sort'', JString ''DATE_ASC''),
        (''newerThan'', JString newer),
        (''olderThan'', JString older),
        (''ended'', JBool False)]"

definition encode_search_url :: "config \<Rightarrow> string \<Rightarrow> string \<Rightarrow> string \<Rightarrow> string" where
  "encode_search_url C term newer older =
     (let json_str = dumps (search_params C term newer older);
          encoded_params = b64encode (encode json_str)
      in base_url @ ''/archive?searchSettings='' @ encoded_params)"

text \<open>scraper.py; \<open>now\<close> is what \<open>datetime.now()\<close> returns during the call.\<close>

definition build_search_url ::
  "config \<Rightarrow> (int \<Rightarrow> string) \<Rightarrow> datetime \<Rightarrow> string \<Rightarrow> string option" where
  "build_search_url C strftime_ymd now term =
     (case get_week_date_range strftime_ymd now of
        None \<Rightarrow> None
      | Some (sunday_str, next_sunday_str) \<Rightarrow>
          Some (encode_search_url C term sunday_str next_sunday_str))"

text \<open>comprehensive_debug.py.\<close>

definition build_search_url_debug ::
  "config \<Rightarrow> (int \<Rightarrow> string) \<Rightarrow> datetime \<Rightarrow> string \<Rightarrow> bool \<Rightarrow> string option" where
  "build_search_url_debug C strftime_ymd now term ignore_dates =
     (case get_week_date_range_debug strftime_ymd ignore_dates now of
        None \<Rightarrow> None
      | Some (sunday_str, saturday_str) \<Rightarrow>
          Some (encode_search_url C term sunday_str saturday_str))"

section \<open>Digest grouping (email_sender.py)\<close>

definition parse_end_time :: "auction \<Rightarrow> nat" where
  "parse_end_time a =
     (let e = lower (end_time a)
      in if str_in ''today'' e then 0
         else if str_in ''tomorrow'' e then 1
         else if str_in ''sunday'' e then 2
         else if str_in ''monday'' e then 3
         else if str_in ''tuesday'' e then 4
         else if str_in ''wednesday'' e then 5
         else if str_in ''thursday'' e then 6
         else if str_in ''friday'' e then 7
         else if str_in ''saturday'' e then 8
         else 9)"

text \<open>\<open>sorted(auctions, key=parse_end_time)\<close>: Python's sort is stable, as \<open>sort_key\<close> is.\<close>

definition sort_auctions_by_end_time :: "auction list \<Rightarrow> auction list" where
  "sort_auctions_by_end_time auctions = sort_key parse_end_time auctions"

text \<open>
  The dictionary \<open>grouped\<close> is an association list in insertion order; \<open>AList.update\<close>
  replaces the value of a key in place and appends a new key at the end.
\<close>

definition group_step ::
  "auction \<Rightarrow> (string \<times> auction list) list \<Rightarrow> (string \<times> auction list) list" where
  "group_step a grouped =
     (let st = search_term a;
          grouped1 = (if map_of grouped st = None then AList.update st [] grouped else grouped)
      in AList.update st (the (map_of grouped1 st) @ [a]) grouped1)"

definition group_auctions_by_search_term :: "auction list \<Rightarrow> (string \<times> auction list) list" where
  "group_auctions_by_search_term auctions =
     map (\<lambda>(st, g). (st, sort_auctions_by_end_time g)) (fold group_step auctions [])"

section \<open>Example values\<close>

definition school_road :: auction where
  "school_road =
     \<lparr>title = ''Cat Tower'', url = Some ''https://www.bidft.auction/item/55'',
      current_bid = ''$12.00'', end_time = ''Sunday 5PM'',
      location = ''CINCINNATI - SCHOOL ROAD'', condition = ''Brand New'',
      image_url = Some [], image_path = None, search_term = ''Cat''\<rparr>"

definition example_config :: config where
  "example_config =
     \<lparr>cincinnati_locations = [''Springdale - Commons Drive'', ''Cincinnati - School Road''],
      filters_condition = [''Appears New'', ''Brand New'']\<rparr>"

definition example_config_rev :: config where
  "example_config_rev =
     \<lparr>cincinnati_locations = [''Cincinnati - School Road'', ''Springdale - Commons Drive''],
      filters_condition = [''Brand New'', ''Appears New'']\<rparr>"

definition example_now :: datetime where
  "example_now = \<lparr>ordinal = 739021, time_of_day = 52200000000\<rparr>"

definition example_ymd :: "int \<Rightarrow> string" where
  "example_ymd n =
     (if n = 739018 then ''2024-05-12''
      else if n = 739024 then ''2024-05-18''
      else if n = 739025 then ''2024-05-19''
      else ''0000-00-00'')"

definition example_later :: datetime where
  "example_later = \<lparr>ordinal = 739023, time_of_day = 0\<rparr>"

definition example_auctions :: "auction list" where
  "example_auctions =
     [(mk_auction ''Cat Tower'' None ''Cat'')\<lparr>end_time := ''Sunday 5PM''\<rparr>,
      (mk_auction ''Area Rug'' None ''Rug'')\<lparr>end_time := ''Friday 1PM''\<rparr>,
      (mk_auction ''Cat Bed'' None ''Cat'')\<lparr>end_time := ''Today 3PM''\<rparr>]"

definition text_cell :: "string \<Rightarrow> cell" where
  "text_cell t = \<lparr>cell_text = t, descendants = []\<rparr>"

definition row_of :: "cell \<Rightarrow> cell \<Rightarrow> row" where
  "row_of photo description =
     [photo, description, text_cell [], text_cell ''Brand New'',
      text_cell ''Cincinnati - School Road'', text_cell ''Sunday 5PM'', text_cell ''$12.00'']"

definition cat_tower_row :: row where
  "cat_tower_row =
     row_of (text_cell [])
       \<lparr>cell_text = ''Cat Tower'',
        descendants = [\<lparr>tag_name = ''a'', elem_text = ''Cat Tower'',
                        attributes = [(''href'', ''/item/55'')]\<rparr>]\<rparr>"

definition icon_link_row :: row where
  "icon_link_row =
     row_of (text_cell [])
       \<lparr>cell_text = ''Cat Tower'',
        descendants = [\<lparr>tag_name = ''a'', elem_text = [],
                        attributes = [(''href'', ''/item/55'')]\<rparr>]\<rparr>"

definition data_href_row :: row where
  "data_href_row =
     row_of (text_cell [])
       \<lparr>cell_text = ''Cat Tower'',
        descendants = [\<lparr>tag_name = ''span'', elem_text = ''Cat Tower'',
                        attributes = [(''data-href'', ''/item/77'')]\<rparr>]\<rparr>"

definition photo_link_row :: row where
  "photo_link_row =
     row_of \<lparr>cell_text = [],
             descendants = [\<lparr>tag_name = ''a'', elem_text = [],
                             attributes = [(''href'', ''https://www.bidft.auction/itemDetails/9'')]\<rparr>]\<rparr>
       (text_cell '' Area Rug '')"

definition plain_row :: row where
  "plain_row = row_of (text_cell []) (text_cell ''Cat Tower'')"

definition script_row :: row where
  "script_row =
     row_of (text_cell [])
       \<lparr>cell_text = ''Cat Tower'',
        descendants = [\<lparr>tag_name = ''span'', elem_text = ''Cat Tower'',
                        attributes = [(''onclick'', ''httpGet(55)'')]\<rparr>]\<rparr>"

definition bare_link_row :: row where
  "bare_link_row =
     row_of \<lparr>cell_text = [],
             descendants = [\<lparr>tag_name = ''a'', elem_text = [],
                             attributes = [(''href'', ''https://www.bidft.auction/itemDetails/9'')]\<rparr>]\<rparr>
       \<lparr>cell_text = ''Area Rug'',
        descendants = [\<lparr>tag_name = ''span'', elem_text = ''Area Rug'',
                        attributes = [(''class'', ''item-link'')]\<rparr>]\<rparr>"

definition short_row :: row where
  "short_row = take 6 plain_row"

definition example_env :: env where
  "example_env =
     \<lparr>urljoin = (\<lambda>base u. base @ u), image_filename = (\<lambda>k. k @ ''.jpg''),
      download_image = (\<lambda>u f. None)\<rparr>"

section \<open>Properties of the string functions\<close>

lemma is_space_lower_char: "is_space (lower_char c) = is_space c"
  unfolding is_space_def lower_char_def Let_def by simp

lemma ball_dropWhile: "(\<forall>x\<in>set (dropWhile P xs). P x) = (\<forall>x\<in>set xs. P x)"
  by (induction xs) auto

lemma strip_nil_iff: "strip s = [] \<longleftrightarrow> blank s"
  unfolding strip_def blank_def
  by (simp add: ball_dropWhile list_all_iff)

lemma blank_lower: "blank (lower s) = blank s"
  unfolding blank_def lower_def by (simp add: list_all_iff is_space_lower_char)

lemma has_key_iff: "has_key a \<longleftrightarrow> \<not> (\<not> truthy (url a) \<and> blank (title a))"
  unfolding has_key_def by (simp add: strip_nil_iff blank_lower)

lemma truthy_iff: "truthy x \<longleftrightarrow> (\<exists>s. x = Some s \<and> s \<noteq> [])"
  by (cases x) auto

section \<open>Deduplication: the loop and its result\<close>

text \<open>The two sets hold the keys of the records read so far.\<close>

lemma seen_urls_fold:
  "seen_urls (fold dedupe_step xs dedupe_init) = {u. \<exists>a\<in>set xs. truthy (url a) \<and> url a = Some u}"
proof (induction xs rule: rev_induct)
  case Nil
  show ?case by (simp add: dedupe_init_def)
next
  case (snoc a xs)
  show ?case
  proof (cases "url a")
    case None
    with snoc show ?thesis by (auto simp: dedupe_step_def Let_def)
  next
    case (Some u)
    with snoc show ?thesis by (auto simp: dedupe_step_def Let_def)
  qed
qed

lemma seen_titles_fold:
  "seen_titles (fold dedupe_step xs dedupe_init) =
     {t. \<exists>a\<in>set xs. \<not> truthy (url a) \<and> t = strip (lower (title a)) \<and> t \<noteq> []}"
proof (induction xs rule: rev_induct)
  case Nil
  show ?case by (simp add: dedupe_init_def)
next
  case (snoc a xs)
  then show ?case by (auto simp: dedupe_step_def Let_def)
qed

lemma url_seen_iff:
  assumes t: "truthy (url a)"
  shows "the (url a) \<in> seen_urls (fold dedupe_step xs dedupe_init)
           \<longleftrightarrow> dedup_key a \<in> dedup_key ` set xs"
proof (cases "url a")
  case None
  with t show ?thesis by simp
next
  case (Some u)
  have "(\<exists>b\<in>set xs. truthy (url b) \<and> url b = Some u) \<longleftrightarrow> (\<exists>b\<in>set xs. dedup_key b = Inl u)"
    by (intro bex_cong refl) (auto simp: dedup_key_def truthy_iff)
  then show ?thesis
    using t Some unfolding seen_urls_fold by (auto simp: dedup_key_def image_iff)
qed

lemma title_seen_iff:
  "\<not> truthy (url a) \<Longrightarrow> strip (lower (title a)) \<noteq> [] \<Longrightarrow>
     strip (lower (title a)) \<in> seen_titles (fold dedupe_step xs dedupe_init)
       \<longleftrightarrow> dedup_key a \<in> dedup_key ` set xs"
  unfolding seen_titles_fold by (auto simp: dedup_key_def image_iff split: if_splits)

lemma remove_duplicates_Nil: "remove_duplicates [] = []"
  by (simp add: remove_duplicates_def dedupe_init_def)

text \<open>What one more record at the end of the input adds to the result.\<close>

lemma remove_duplicates_snoc:
  "remove_duplicates (xs @ [a]) =
     remove_duplicates xs @ (if has_key a \<and> dedup_key a \<notin> dedup_key ` set xs then [a] else [])"
proof (cases "truthy (url a)")
  case True
  then show ?thesis
    using url_seen_iff [OF True, of xs]
    by (simp add: remove_duplicates_def dedupe_step_def Let_def has_key_def)
next
  case False
  show ?thesis
  proof (cases "strip (lower (title a)) = []")
    case True
    with False show ?thesis
      by (simp add: remove_duplicates_def dedupe_step_def Let_def has_key_def)
  next
    case nonblank: False
    show ?thesis
      using title_seen_iff [OF False nonblank, of xs] False nonblank
      by (simp add: remove_duplicates_def dedupe_step_def Let_def has_key_def)
  qed
qed

lemma kept_indices_snoc:
  "map (\<lambda>i. (xs @ [a]) ! i)
     (filter (\<lambda>i. P ((xs @ [a]) ! i) (take i (xs @ [a]))) [0..<length (xs @ [a])]) =
   map (\<lambda>i. xs ! i) (filter (\<lambda>i. P (xs ! i) (take i xs)) [0..<length xs])
     @ (if P a xs then [a] else [])"
proof -
  have f: "filter (\<lambda>i. P ((xs @ [a]) ! i) (take i (xs @ [a]))) [0..<length xs]
         = filter (\<lambda>i. P (xs ! i) (take i xs)) [0..<length xs]"
    by (rule filter_cong) (auto simp: nth_append)
  have m: "map (\<lambda>i. (xs @ [a]) ! i) (filter (\<lambda>i. P (xs ! i) (take i xs)) [0..<length xs])
         = map (\<lambda>i. xs ! i) (filter (\<lambda>i. P (xs ! i) (take i xs)) [0..<length xs])"
    by (rule map_cong) (auto simp: nth_append)
  have split: "[0..<length (xs @ [a])] = [0..<length xs] @ [length xs]" by simp
  have last: "(xs @ [a]) ! length xs = a" "take (length xs) (xs @ [a]) = xs" by simp_all
  show ?thesis unfolding split filter_append map_append f m last by simp
qed

lemma remove_duplicates_subset: "set (remove_duplicates xs) \<subseteq> set xs"
  by (induction xs rule: rev_induct) (auto simp: remove_duplicates_Nil remove_duplicates_snoc)

lemma remove_duplicates_has_key: "a \<in> set (remove_duplicates xs) \<Longrightarrow> has_key a"
  by (induction xs rule: rev_induct)
     (auto simp: remove_duplicates_Nil remove_duplicates_snoc split: if_splits)

lemma remove_duplicates_distinct: "distinct (map dedup_key (remove_duplicates xs))"
proof (induction xs rule: rev_induct)
  case Nil
  show ?case by (simp add: remove_duplicates_Nil)
next
  case (snoc a xs)
  have "dedup_key ` set (remove_duplicates xs) \<subseteq> dedup_key ` set xs"
    using remove_duplicates_subset [of xs] by blast
  with snoc show ?case by (auto simp: remove_duplicates_snoc)
qed

lemma remove_duplicates_fixed:
  "(\<And>a. a \<in> set ys \<Longrightarrow> has_key a) \<Longrightarrow> distinct (map dedup_key ys) \<Longrightarrow> remove_duplicates ys = ys"
  by (induction ys rule: rev_induct) (auto simp: remove_duplicates_Nil remove_duplicates_snoc)

lemma dedupe_step_keyless: "\<not> has_key a \<Longrightarrow> dedupe_step a s = s"
  by (simp add: dedupe_step_def has_key_def Let_def)

lemma remove_duplicates_skip_keyless:
  "\<not> has_key a \<Longrightarrow> remove_duplicates (pre @ a # post) = remove_duplicates (pre @ post)"
  by (simp add: remove_duplicates_def dedupe_step_keyless)

text \<open>
  Claim C3, as the code has it: \<open>remove_duplicates\<close> keeps, in their order, exactly the
  records that have a key (a non-empty url, or else a title that is not blank) and whose
  key occurs at no earlier position of the input, urls being compared with urls and
  titles with titles. Records with an empty url and a blank title are not kept.
\<close>

theorem remove_duplicates_first_occurrence:
  "remove_duplicates xs =
     map (\<lambda>i. xs ! i)
       (filter (\<lambda>i. has_key (xs ! i) \<and> dedup_key (xs ! i) \<notin> dedup_key ` set (take i xs))
          [0..<length xs])"
proof (induction xs rule: rev_induct)
  case Nil
  show ?case by (simp add: remove_duplicates_Nil)
next
  case (snoc a xs)
  show ?case
    unfolding remove_duplicates_snoc snoc.IH
    using kept_indices_snoc [where P = "\<lambda>x pre. has_key x \<and> dedup_key x \<notin> dedup_key ` set pre"
                               and xs = xs and a = a]
    by simp
qed

text \<open>The spec's example: of the urls a, b, a the first two records are kept.\<close>

theorem remove_duplicates_first_occurrence_witness:
  "remove_duplicates [mk_auction ''x'' (Some ''a'') ''Cat'', mk_auction ''y'' (Some ''b'') ''Cat'',
                      mk_auction ''z'' (Some ''a'') ''Rug'']
   = [mk_auction ''x'' (Some ''a'') ''Cat'', mk_auction ''y'' (Some ''b'') ''Cat'']"
  by (subst remove_duplicates_first_occurrence)
     (simp add: mk_auction_def has_key_def dedup_key_def
        upt_rec [of 0] upt_rec [of 1] upt_rec [of 2] upt_rec [of 3] take_Cons')

text \<open>
  Claim C3 as stated fails: a single record with no url and an empty title has a key
  that occurred nowhere before it, and is dropped.
\<close>

theorem remove_duplicates_blank_counterexample:
  "remove_duplicates [mk_auction [] None ''Cat''] = [] \<and>
   dedupe_spec [mk_auction [] None ''Cat''] = [mk_auction [] None ''Cat'']"
  by (simp add: remove_duplicates_def dedupe_init_def dedupe_step_def dedupe_spec_def
        mk_auction_def strip_def lower_def)

text \<open>Claim C9: \<open>remove_duplicates\<close> is idempotent.\<close>

theorem remove_duplicates_idempotent:
  "remove_duplicates (remove_duplicates x) = remove_duplicates x"
  by (rule remove_duplicates_fixed)
     (simp_all add: remove_duplicates_has_key remove_duplicates_distinct)

text \<open>
  Claim C10: a record whose url is empty and whose title is empty or whitespace only is
  in no output of \<open>remove_duplicates\<close>, and the output is the same as if the record had
  not been in the input, wherever it stands.
\<close>

theorem remove_duplicates_drops_blank:
  assumes "\<not> truthy (url a)" and "blank (title a)"
  shows "a \<notin> set (remove_duplicates xs) \<and>
         remove_duplicates (pre @ a # post) = remove_duplicates (pre @ post)"
proof -
  from assms have "\<not> has_key a" by (simp add: has_key_iff)
  then show ?thesis
    using remove_duplicates_has_key [of a xs] remove_duplicates_skip_keyless [of a pre post]
    by blast
qed

theorem remove_duplicates_drops_blank_witness:
  "\<not> truthy (url (mk_auction ''  '' None ''Cat'')) \<and> blank (title (mk_auction ''  '' None ''Cat'')) \<and>
   mk_auction ''  '' None ''Cat'' \<notin> set (remove_duplicates [mk_auction ''  '' None ''Cat'']) \<and>
   remove_duplicates ([mk_auction ''Rug'' None ''Rug''] @ mk_auction ''  '' None ''Cat'' # [])
     = remove_duplicates ([mk_auction ''Rug'' None ''Rug''] @ [])"
  using remove_duplicates_drops_blank [of "mk_auction ''  '' None ''Cat''"
          "[mk_auction ''  '' None ''Cat'']" "[mk_auction ''Rug'' None ''Rug'']" "[]"]
  by (simp add: mk_auction_def blank_def is_space_def)

section \<open>Criteria filter\<close>

lemma startswith_iff: "startswith s p \<longleftrightarrow> (\<exists>r. s = p @ r)"
  by (induction s p rule: startswith.induct) auto

text \<open>\<open>str_in\<close> is containment as a contiguous substring.\<close>

lemma str_in_iff: "str_in needle hay \<longleftrightarrow> (\<exists>p s. hay = p @ needle @ s)"
proof (induction hay)
  case Nil
  show ?case by auto
next
  case (Cons c cs)
  have "(\<exists>p s. c # cs = p @ needle @ s) \<longleftrightarrow>
        (\<exists>s. c # cs = needle @ s) \<or> (\<exists>p s. cs = p @ needle @ s)"
    (is "?L \<longleftrightarrow> ?A \<or> ?B")
  proof
    assume ?L
    then obtain p s where e: "c # cs = p @ needle @ s" by blast
    show "?A \<or> ?B"
    proof (cases p)
      case Nil
      with e show ?thesis by auto
    next
      case (Cons d p')
      with e have "cs = p' @ needle @ s" by simp
      then show ?thesis by blast
    qed
  next
    assume "?A \<or> ?B"
    then show ?L
    proof
      assume ?A
      then obtain s where "c # cs = [] @ needle @ s" by auto
      then show ?L by blast
    next
      assume ?B
      then obtain p s where "cs = p @ needle @ s" by blast
      then have "c # cs = (c # p) @ needle @ s" by simp
      then show ?L by blast
    qed
  qed
  with Cons show ?case by (simp add: startswith_iff)
qed

lemma lower_nil_iff: "lower s = [] \<longleftrightarrow> s = []"
  by (simp add: lower_def)

lemma meets_criteria_list_ex:
  "meets_criteria C a \<longleftrightarrow>
     title a \<noteq> [] \<and> location a \<noteq> [] \<and>
     (\<exists>l\<in>set (cincinnati_locations C). str_in (lower l) (lower (location a))) \<and>
     (\<exists>c\<in>set (filters_condition C). str_in (lower c) (lower (condition a)))"
  by (simp add: meets_criteria_def Let_def list_ex_iff)

text \<open>
  Claim C4: \<open>meets_criteria\<close> holds exactly when title and location are non-empty, some
  allowed location, lower-cased, is a substring of the lower-cased location, and some
  allowed condition, lower-cased, is a substring of the lower-cased condition. The
  result depends on each allow-list only as a set (not on its order), and only on the
  lower-cased forms of the allow-list entries, the location and the condition.
\<close>

theorem meets_criteria_iff:
  "(meets_criteria C a \<longleftrightarrow>
      title a \<noteq> [] \<and> location a \<noteq> [] \<and>
      (\<exists>l\<in>set (cincinnati_locations C). \<exists>p s. lower (location a) = p @ lower l @ s) \<and>
      (\<exists>c\<in>set (filters_condition C). \<exists>p s. lower (condition a) = p @ lower c @ s)) \<and>
   (set (cincinnati_locations C') = set (cincinnati_locations C) \<and>
    set (filters_condition C') = set (filters_condition C)
      \<longrightarrow> meets_criteria C' a = meets_criteria C a) \<and>
   (lower ` set (cincinnati_locations C') = lower ` set (cincinnati_locations C) \<and>
    lower ` set (filters_condition C') = lower ` set (filters_condition C) \<and>
    title b = title a \<and> lower (location b) = lower (location a) \<and>
    lower (condition b) = lower (condition a)
      \<longrightarrow> meets_criteria C' b = meets_criteria C a)"
proof (intro conjI impI)
  show "meets_criteria C a \<longleftrightarrow>
      title a \<noteq> [] \<and> location a \<noteq> [] \<and>
      (\<exists>l\<in>set (cincinnati_locations C). \<exists>p s. lower (location a) = p @ lower l @ s) \<and>
      (\<exists>c\<in>set (filters_condition C). \<exists>p s. lower (condition a) = p @ lower c @ s)"
    by (simp add: meets_criteria_list_ex str_in_iff)
next
  assume "set (cincinnati_locations C') = set (cincinnati_locations C) \<and>
          set (filters_condition C') = set (filters_condition C)"
  then show "meets_criteria C' a = meets_criteria C a"
    by (simp add: meets_criteria_list_ex)
next
  assume h: "lower ` set (cincinnati_locations C') = lower ` set (cincinnati_locations C) \<and>
    lower ` set (filters_condition C') = lower ` set (filters_condition C) \<and>
    title b = title a \<and> lower (location b) = lower (location a) \<and>
    lower (condition b) = lower (condition a)"
  have img: "\<And>X h. (\<exists>l\<in>X. str_in (lower l) h) \<longleftrightarrow> (\<exists>k\<in>lower ` X. str_in k h)"
    by blast
  from h have "location b = [] \<longleftrightarrow> location a = []"
    by (metis lower_nil_iff)
  with h show "meets_criteria C' b = meets_criteria C a"
    unfolding meets_criteria_list_ex img by simp
qed

text \<open>The spec's example: the upper-case location passes, whatever the order of the
  allow-lists.\<close>

theorem meets_criteria_iff_witness:
  "set (cincinnati_locations example_config_rev) = set (cincinnati_locations example_config) \<and>
   set (filters_condition example_config_rev) = set (filters_condition example_config) \<and>
   meets_criteria example_config_rev school_road = meets_criteria example_config school_road \<and>
   meets_criteria example_config school_road"
proof -
  have s1: "set (cincinnati_locations example_config_rev) = set (cincinnati_locations example_config)"
    by (simp add: example_config_def example_config_rev_def insert_commute)
  have s2: "set (filters_condition example_config_rev) = set (filters_condition example_config)"
    by (simp add: example_config_def example_config_rev_def insert_commute)
  have m: "meets_criteria example_config school_road"
    by code_simp
  from s1 s2 m show ?thesis
    using meets_criteria_iff [of example_config school_road example_config_rev school_road]
    by blast
qed


section \<open>Date window\<close>

lemma days_since_sunday: "((n + 6) mod 7 + 1) mod 7 = (n::int) mod 7"
  by presburger

lemma sunday_in_range:
  fixes n m :: int
  assumes "7 \<le> n" and "n + 7 \<le> m"
  shows "0 < n - n mod 7" and "n - n mod 7 \<le> m" and "n - n mod 7 + 7 \<le> m"
    and "n - n mod 7 + 6 \<le> m" and "n mod 7 < n"
  using assms by presburger+

lemma week_window_eq:
  assumes "7 \<le> ordinal now" and "ordinal now + 7 \<le> max_ordinal"
  shows "week_window now =
           Some (now\<lparr>ordinal := ordinal now - ordinal now mod 7\<rparr>,
                 now\<lparr>ordinal := ordinal now - ordinal now mod 7 + 7\<rparr>)"
proof -
  show ?thesis
    using sunday_in_range [OF assms]
    by (simp add: week_window_def weekday_def add_days_def days_since_sunday Let_def)
qed

lemma week_window_debug_eq:
  assumes "7 \<le> ordinal now" and "ordinal now + 7 \<le> max_ordinal"
  shows "week_window_debug False now =
           Some (now\<lparr>ordinal := ordinal now - ordinal now mod 7\<rparr>,
                 now\<lparr>ordinal := ordinal now - ordinal now mod 7 + 6\<rparr>)"
proof -
  show ?thesis
    using sunday_in_range [OF assms]
    by (simp add: week_window_debug_def weekday_def add_days_def days_since_sunday Let_def)
qed

lemma sunday_latest:
  fixes n d :: int
  assumes "(d + 6) mod 7 = 6" and "d \<le> n"
  shows "d \<le> n - n mod 7"
  using assms by presburger

text \<open>
  Claim C5: for a clock reading at least a week inside the range of \<open>datetime\<close>, the
  window starts on the latest Sunday (Python weekday 6) on or before the day of \<open>now\<close>,
  and ends 7 days later (scraper.py) or 6 days later (comprehensive_debug.py); both ends
  are rendered as their date followed by \<open>T04:00:00.000Z\<close>, and the start is not after
  the end.
\<close>

theorem week_window_sunday:
  assumes "7 \<le> ordinal now" and "ordinal now + 7 \<le> max_ordinal"
  shows "\<exists>sunday.
     weekday sunday = 6 \<and> time_of_day sunday = time_of_day now \<and>
     ordinal sunday \<le> ordinal now \<and>
     (\<forall>d. weekday d = 6 \<and> ordinal d \<le> ordinal now \<longrightarrow> ordinal d \<le> ordinal sunday) \<and>
     week_window now = Some (sunday, sunday\<lparr>ordinal := ordinal sunday + 7\<rparr>) \<and>
     week_window_debug False now = Some (sunday, sunday\<lparr>ordinal := ordinal sunday + 6\<rparr>) \<and>
     get_week_date_range f now =
       Some (f (ordinal sunday) @ ''T04:00:00.000Z'', f (ordinal sunday + 7) @ ''T04:00:00.000Z'') \<and>
     get_week_date_range_debug f False now =
       Some (f (ordinal sunday) @ ''T04:00:00.000Z'', f (ordinal sunday + 6) @ ''T04:00:00.000Z'') \<and>
     ordinal sunday \<le> ordinal sunday + 7 \<and> ordinal sunday \<le> ordinal sunday + 6"
proof (intro exI conjI)
  let ?s = "now\<lparr>ordinal := ordinal now - ordinal now mod 7\<rparr>"
  show "weekday ?s = 6" by (simp add: weekday_def) presburger
  show "time_of_day ?s = time_of_day now" by simp
  show "ordinal ?s \<le> ordinal now" by simp
  show "\<forall>d. weekday d = 6 \<and> ordinal d \<le> ordinal now \<longrightarrow> ordinal d \<le> ordinal ?s"
    using sunday_latest by (simp add: weekday_def)
  show "week_window now = Some (?s, ?s\<lparr>ordinal := ordinal ?s + 7\<rparr>)"
    using week_window_eq [OF assms] by simp
  show "week_window_debug False now = Some (?s, ?s\<lparr>ordinal := ordinal ?s + 6\<rparr>)"
    using week_window_debug_eq [OF assms] by simp
  show "get_week_date_range f now =
       Some (f (ordinal ?s) @ ''T04:00:00.000Z'', f (ordinal ?s + 7) @ ''T04:00:00.000Z'')"
    using week_window_eq [OF assms] by (simp add: get_week_date_range_def strftime_T04_def)
  show "get_week_date_range_debug f False now =
       Some (f (ordinal ?s) @ ''T04:00:00.000Z'', f (ordinal ?s + 6) @ ''T04:00:00.000Z'')"
    using week_window_debug_eq [OF assms]
    by (simp add: get_week_date_range_debug_def strftime_T04_def)
  show "ordinal ?s \<le> ordinal ?s + 7" by simp
  show "ordinal ?s \<le> ordinal ?s + 6" by simp
qed

text \<open>Wednesday 2024-05-15, 14:30.\<close>

theorem week_window_sunday_witness:
  "7 \<le> ordinal example_now \<and> ordinal example_now + 7 \<le> max_ordinal \<and>
   (\<exists>sunday. weekday sunday = 6 \<and>
      get_week_date_range example_ymd example_now =
        Some (example_ymd (ordinal sunday) @ ''T04:00:00.000Z'',
              example_ymd (ordinal sunday + 7) @ ''T04:00:00.000Z'')) \<and>
   get_week_date_range example_ymd example_now =
     Some (''2024-05-12T04:00:00.000Z'', ''2024-05-19T04:00:00.000Z'') \<and>
   get_week_date_range_debug example_ymd False example_now =
     Some (''2024-05-12T04:00:00.000Z'', ''2024-05-18T04:00:00.000Z'')"
proof -
  have h1: "7 \<le> ordinal example_now" by (simp add: example_now_def)
  have h2: "ordinal example_now + 7 \<le> max_ordinal" by (simp add: example_now_def max_ordinal_def)
  have e1: "get_week_date_range example_ymd example_now =
     Some (''2024-05-12T04:00:00.000Z'', ''2024-05-19T04:00:00.000Z'')"
    by (simp add: get_week_date_range_def week_window_def weekday_def add_days_def
          example_now_def example_ymd_def max_ordinal_def strftime_T04_def Let_def)
  have e2: "get_week_date_range_debug example_ymd False example_now =
     Some (''2024-05-12T04:00:00.000Z'', ''2024-05-18T04:00:00.000Z'')"
    by (simp add: get_week_date_range_debug_def week_window_debug_def weekday_def add_days_def
          example_now_def example_ymd_def max_ordinal_def strftime_T04_def Let_def)
  from week_window_sunday [OF h1 h2, of example_ymd] h1 h2 e1 e2 show ?thesis
    by blast
qed


section \<open>Query builder\<close>

lemma json_string_literals:
  \<open>json_string ''searchTerm'' = ''"searchTerm"''\<close>
  \<open>json_string ''locations'' = ''"locations"''\<close>
  \<open>json_string ''conditions'' = ''"conditions"''\<close>
  \<open>json_string ''sort'' = ''"sort"''\<close>
  \<open>json_string ''DATE_ASC'' = ''"DATE_ASC"''\<close>
  \<open>json_string ''newerThan'' = ''"newerThan"''\<close>
  \<open>json_string ''olderThan'' = ''"olderThan"''\<close>
  \<open>json_string ''ended'' = ''"ended"''\<close>
  by (simp_all add: json_string_def json_escape_char_def)

lemma dumps_search_params:
  \<open>dumps (search_params C term newer older) =
     ''{"searchTerm":'' @ json_string term @
     '',"locations":['' @ join '','' (map json_string (cincinnati_locations C)) @
     ''],"conditions":['' @ join '','' (map json_string (filters_condition C)) @
     ''],"sort":"DATE_ASC","newerThan":'' @ json_string newer @
     '',"olderThan":'' @ json_string older @ '',"ended":false}''\<close>
  by (simp add: search_params_def json_string_literals comp_def)

text \<open>
  Claim C6: two calls of \<open>build_search_url\<close> with the same search term and configuration
  whose clock readings give the same date window return the same string, in both files;
  the string is the fixed prefix ending in \<open>/archive?searchSettings=\<close> followed by the
  base64 encoding of the compact JSON text, whose keys stand in the order searchTerm,
  locations, conditions, sort, newerThan, olderThan, ended.
\<close>

theorem build_search_url_deterministic:
  \<open>(get_week_date_range f now1 = get_week_date_range f now2
      \<longrightarrow> build_search_url C f now1 term = build_search_url C f now2 term) \<and>
   (get_week_date_range_debug f ig1 now1 = get_week_date_range_debug f ig2 now2
      \<longrightarrow> build_search_url_debug C f now1 term ig1 = build_search_url_debug C f now2 term ig2) \<and>
   (get_week_date_range f now = Some (newer, older)
      \<longrightarrow> build_search_url C f now term =
          Some (''https://www.bidft.auction/archive?searchSettings='' @
                b64encode (encode (
                  ''{"searchTerm":'' @ json_string term @
                  '',"locations":['' @ join '','' (map json_string (cincinnati_locations C)) @
                  ''],"conditions":['' @ join '','' (map json_string (filters_condition C)) @
                  ''],"sort":"DATE_ASC","newerThan":'' @ json_string newer @
                  '',"olderThan":'' @ json_string older @ '',"ended":false}'')))) \<and>
   (get_week_date_range_debug f ig now = Some (newer, older)
      \<longrightarrow> build_search_url_debug C f now term ig =
          Some (''https://www.bidft.auction/archive?searchSettings='' @
                b64encode (encode (
                  ''{"searchTerm":'' @ json_string term @
                  '',"locations":['' @ join '','' (map json_string (cincinnati_locations C)) @
                  ''],"conditions":['' @ join '','' (map json_string (filters_condition C)) @
                  ''],"sort":"DATE_ASC","newerThan":'' @ json_string newer @
                  '',"olderThan":'' @ json_string older @ '',"ended":false}''))))\<close>
proof (intro conjI impI)
  assume "get_week_date_range f now1 = get_week_date_range f now2"
  then show "build_search_url C f now1 term = build_search_url C f now2 term"
    by (simp add: build_search_url_def)
next
  assume "get_week_date_range_debug f ig1 now1 = get_week_date_range_debug f ig2 now2"
  then show "build_search_url_debug C f now1 term ig1 = build_search_url_debug C f now2 term ig2"
    by (simp add: build_search_url_debug_def)
next
  assume "get_week_date_range f now = Some (newer, older)"
  then show \<open>build_search_url C f now term =
          Some (''https://www.bidft.auction/archive?searchSettings='' @
                b64encode (encode (
                  ''{"searchTerm":'' @ json_string term @
                  '',"locations":['' @ join '','' (map json_string (cincinnati_locations C)) @
                  ''],"conditions":['' @ join '','' (map json_string (filters_condition C)) @
                  ''],"sort":"DATE_ASC","newerThan":'' @ json_string newer @
                  '',"olderThan":'' @ json_string older @ '',"ended":false}'')))\<close>
    by (simp only: build_search_url_def encode_search_url_def dumps_search_params Let_def
          base_url_def option.case prod.case append.simps)
next
  assume "get_week_date_range_debug f ig now = Some (newer, older)"
  then show \<open>build_search_url_debug C f now term ig =
          Some (''https://www.bidft.auction/archive?searchSettings='' @
                b64encode (encode (
                  ''{"searchTerm":'' @ json_string term @
                  '',"locations":['' @ join '','' (map json_string (cincinnati_locations C)) @
                  ''],"conditions":['' @ join '','' (map json_string (filters_condition C)) @
                  ''],"sort":"DATE_ASC","newerThan":'' @ json_string newer @
                  '',"olderThan":'' @ json_string older @ '',"ended":false}'')))\<close>
    by (simp only: build_search_url_debug_def encode_search_url_def dumps_search_params Let_def
          base_url_def option.case prod.case append.simps)
qed

lemma example_windows:
  "get_week_date_range example_ymd example_now =
     Some (''2024-05-12T04:00:00.000Z'', ''2024-05-19T04:00:00.000Z'')"
  "get_week_date_range example_ymd example_later =
     Some (''2024-05-12T04:00:00.000Z'', ''2024-05-19T04:00:00.000Z'')"
  by (simp_all add: get_week_date_range_def week_window_def weekday_def add_days_def
        example_now_def example_later_def example_ymd_def max_ordinal_def strftime_T04_def Let_def)

lemma example_url:
  "encode_search_url example_config ''Cat'' ''2024-05-12T04:00:00.000Z'' ''2024-05-19T04:00:00.000Z''
     = ''https://www.bidft.auction/archive?searchSettings=eyJzZWFyY2hUZXJtIjoiQ2F0IiwibG9jYXRpb25zIjpbIlNwcmluZ2RhbGUgLSBDb21tb25zIERyaXZlIiwiQ2luY2lubmF0aSAtIFNjaG9vbCBSb2FkIl0sImNvbmRpdGlvbnMiOlsiQXBwZWFycyBOZXciLCJCcmFuZCBOZXciXSwic29ydCI6IkRBVEVfQVNDIiwibmV3ZXJUaGFuIjoiMjAyNC0wNS0xMlQwNDowMDowMC4wMDBaIiwib2xkZXJUaGFuIjoiMjAyNC0wNS0xOVQwNDowMDowMC4wMDBaIiwiZW5kZWQiOmZhbHNlfQ==''"
  by code_simp

text \<open>Wednesday and Friday of the same week give the same URL.\<close>

theorem build_search_url_deterministic_witness:
  "get_week_date_range example_ymd example_now = get_week_date_range example_ymd example_later \<and>
   build_search_url example_config example_ymd example_now ''Cat''
     = build_search_url example_config example_ymd example_later ''Cat'' \<and>
   build_search_url example_config example_ymd example_now ''Cat''
     = Some ''https://www.bidft.auction/archive?searchSettings=eyJzZWFyY2hUZXJtIjoiQ2F0IiwibG9jYXRpb25zIjpbIlNwcmluZ2RhbGUgLSBDb21tb25zIERyaXZlIiwiQ2luY2lubmF0aSAtIFNjaG9vbCBSb2FkIl0sImNvbmRpdGlvbnMiOlsiQXBwZWFycyBOZXciLCJCcmFuZCBOZXciXSwic29ydCI6IkRBVEVfQVNDIiwibmV3ZXJUaGFuIjoiMjAyNC0wNS0xMlQwNDowMDowMC4wMDBaIiwib2xkZXJUaGFuIjoiMjAyNC0wNS0xOVQwNDowMDowMC4wMDBaIiwiZW5kZWQiOmZhbHNlfQ==''"
proof -
  have w: "get_week_date_range example_ymd example_now
             = get_week_date_range example_ymd example_later"
    by (simp add: example_windows)
  have u: "build_search_url example_config example_ymd example_now ''Cat''
     = Some ''https://www.bidft.auction/archive?searchSettings=eyJzZWFyY2hUZXJtIjoiQ2F0IiwibG9jYXRpb25zIjpbIlNwcmluZ2RhbGUgLSBDb21tb25zIERyaXZlIiwiQ2luY2lubmF0aSAtIFNjaG9vbCBSb2FkIl0sImNvbmRpdGlvbnMiOlsiQXBwZWFycyBOZXciLCJCcmFuZCBOZXciXSwic29ydCI6IkRBVEVfQVNDIiwibmV3ZXJUaGFuIjoiMjAyNC0wNS0xMlQwNDowMDowMC4wMDBaIiwib2xkZXJUaGFuIjoiMjAyNC0wNS0xOVQwNDowMDowMC4wMDBaIiwiZW5kZWQiOmZhbHNlfQ==''"
    by (simp only: build_search_url_def example_windows option.case prod.case example_url)
  from w u show ?thesis
    using build_search_url_deterministic [of example_ymd example_now example_later example_config "''Cat''"]
    by blast
qed


section \<open>Digest grouping\<close>

lemma group_step_distinct:
  "distinct (map fst G) \<Longrightarrow> distinct (map fst (group_step a G))"
  by (simp add: group_step_def Let_def AList.distinct_update)

lemma group_step_map_of:
  "map_of (group_step a G) t =
     (if t = search_term a
      then Some ((case map_of G t of None \<Rightarrow> [] | Some g \<Rightarrow> g) @ [a])
      else map_of G t)"
  by (auto simp: group_step_def Let_def AList.update_conv' split: option.splits)

lemma fold_group_step:
  "distinct (map fst (fold group_step xs [])) \<and>
   map_of (fold group_step xs []) t =
     (if t \<in> search_term ` set xs then Some (filter (\<lambda>a. search_term a = t) xs) else None)"
proof (induction xs rule: rev_induct)
  case Nil
  show ?case by simp
next
  case (snoc a xs)
  then show ?case
    by (auto simp: group_step_distinct group_step_map_of empty_filter_conv) (metis imageI)
qed

lemma map_of_sorted_groups:
  "map_of (group_auctions_by_search_term xs) t =
     (if t \<in> search_term ` set xs
      then Some (sort_key parse_end_time (filter (\<lambda>a. search_term a = t) xs)) else None)"
  using fold_group_step [of xs t]
  by (simp add: group_auctions_by_search_term_def sort_auctions_by_end_time_def map_of_map)

lemma keys_sorted_groups:
  "map fst (group_auctions_by_search_term xs) = map fst (fold group_step xs [])"
  by (simp add: group_auctions_by_search_term_def case_prod_beta comp_def)

text \<open>
  Claim C7: the result of \<open>group_auctions_by_search_term\<close> has one entry for each search
  term of the input; the group of a term holds exactly the input's records with that
  term, in nondecreasing order of \<open>parse_end_time\<close>, which is the first of today 0,
  tomorrow 1, sunday 2, ..., saturday 8 that the lower-cased end time contains, and 9
  otherwise.
\<close>

theorem group_auctions_sorted:
  "distinct (map fst (group_auctions_by_search_term xs)) \<and>
   fst ` set (group_auctions_by_search_term xs) = search_term ` set xs \<and>
   (\<forall>(t, g) \<in> set (group_auctions_by_search_term xs).
       sorted (map parse_end_time g) \<and>
       mset g = mset (filter (\<lambda>a. search_term a = t) xs)) \<and>
   parse_end_time a =
     (if str_in ''today'' (lower (end_time a)) then 0
      else if str_in ''tomorrow'' (lower (end_time a)) then 1
      else if str_in ''sunday'' (lower (end_time a)) then 2
      else if str_in ''monday'' (lower (end_time a)) then 3
      else if str_in ''tuesday'' (lower (end_time a)) then 4
      else if str_in ''wednesday'' (lower (end_time a)) then 5
      else if str_in ''thursday'' (lower (end_time a)) then 6
      else if str_in ''friday'' (lower (end_time a)) then 7
      else if str_in ''saturday'' (lower (end_time a)) then 8
      else 9)"
proof (intro conjI)
  let ?G = "group_auctions_by_search_term xs"
  show d: "distinct (map fst ?G)"
    using fold_group_step [of xs] by (simp add: keys_sorted_groups)
  have dom: "\<And>t. t \<in> fst ` set ?G \<longleftrightarrow> t \<in> search_term ` set xs"
  proof -
    fix t
    have "t \<in> fst ` set ?G \<longleftrightarrow> map_of ?G t \<noteq> None"
      by (simp add: map_of_eq_None_iff)
    then show "t \<in> fst ` set ?G \<longleftrightarrow> t \<in> search_term ` set xs"
      by (simp add: map_of_sorted_groups)
  qed
  then show "fst ` set ?G = search_term ` set xs" by blast
  show "\<forall>(t, g) \<in> set ?G. sorted (map parse_end_time g) \<and>
          mset g = mset (filter (\<lambda>a. search_term a = t) xs)"
  proof (clarify)
    fix t g
    assume "(t, g) \<in> set ?G"
    with d have "map_of ?G t = Some g" by simp
    then have "g = sort_key parse_end_time (filter (\<lambda>a. search_term a = t) xs)"
      by (simp add: map_of_sorted_groups split: if_splits)
    then show "sorted (map parse_end_time g) \<and>
          mset g = mset (filter (\<lambda>a. search_term a = t) xs)"
      by simp
  qed
  show "parse_end_time a =
     (if str_in ''today'' (lower (end_time a)) then 0
      else if str_in ''tomorrow'' (lower (end_time a)) then 1
      else if str_in ''sunday'' (lower (end_time a)) then 2
      else if str_in ''monday'' (lower (end_time a)) then 3
      else if str_in ''tuesday'' (lower (end_time a)) then 4
      else if str_in ''wednesday'' (lower (end_time a)) then 5
      else if str_in ''thursday'' (lower (end_time a)) then 6
      else if str_in ''friday'' (lower (end_time a)) then 7
      else if str_in ''saturday'' (lower (end_time a)) then 8
      else 9)"
    by (simp add: parse_end_time_def Let_def)
qed

lemma example_groups:
  "group_auctions_by_search_term example_auctions =
     [(''Cat'', [(mk_auction ''Cat Bed'' None ''Cat'')\<lparr>end_time := ''Today 3PM''\<rparr>,
                 (mk_auction ''Cat Tower'' None ''Cat'')\<lparr>end_time := ''Sunday 5PM''\<rparr>]),
      (''Rug'', [(mk_auction ''Area Rug'' None ''Rug'')\<lparr>end_time := ''Friday 1PM''\<rparr>])]"
  by code_simp

theorem group_auctions_sorted_witness:
  "group_auctions_by_search_term example_auctions =
     [(''Cat'', [(mk_auction ''Cat Bed'' None ''Cat'')\<lparr>end_time := ''Today 3PM''\<rparr>,
                 (mk_auction ''Cat Tower'' None ''Cat'')\<lparr>end_time := ''Sunday 5PM''\<rparr>]),
      (''Rug'', [(mk_auction ''Area Rug'' None ''Rug'')\<lparr>end_time := ''Friday 1PM''\<rparr>])] \<and>
   sorted (map parse_end_time
     [(mk_auction ''Cat Bed'' None ''Cat'')\<lparr>end_time := ''Today 3PM''\<rparr>,
      (mk_auction ''Cat Tower'' None ''Cat'')\<lparr>end_time := ''Sunday 5PM''\<rparr>])"
proof -
  have "\<forall>(t, g) \<in> set (group_auctions_by_search_term example_auctions).
          sorted (map parse_end_time g) \<and>
          mset g = mset (filter (\<lambda>a. search_term a = t) example_auctions)"
    using group_auctions_sorted [of example_auctions] by blast
  then have "sorted (map parse_end_time
     [(mk_auction ''Cat Bed'' None ''Cat'')\<lparr>end_time := ''Today 3PM''\<rparr>,
      (mk_auction ''Cat Tower'' None ''Cat'')\<lparr>end_time := ''Sunday 5PM''\<rparr>])"
    unfolding example_groups by (simp only: list.set ball_simps prod.case)
  with example_groups show ?thesis by (rule conjI)
qed


section \<open>Record extraction\<close>

text \<open>
  Claim C8: on a row with fewer than 7 cells both extraction functions return \<open>None\<close>,
  whatever the row holds and whatever the search term.
\<close>

theorem extract_short_row_none:
  "length row_element < 7 \<Longrightarrow>
     extract_auction_from_row E row_element term = None \<and>
     extract_auction_from_row_comprehensive E row_element term row_number = None"
  by (simp add: extract_auction_from_row_def extract_auction_from_row_comprehensive_def)

theorem extract_short_row_none_witness:
  "length short_row < 7 \<and>
   extract_auction_from_row example_env short_row ''Cat'' = None \<and>
   extract_auction_from_row_comprehensive example_env short_row ''Cat'' 1 = None"
proof -
  have l: "length short_row < 7"
    by (simp add: short_row_def plain_row_def row_of_def)
  from l extract_short_row_none [OF l] show ?thesis by blast
qed

section \<open>Title and URL extraction\<close>

lemma find_auction_link_Some:
  "find_auction_link links = Some link \<Longrightarrow>
     link \<in> set links \<and> truthy (get_attribute link ''href'')"
  by (induction links) (auto simp: Let_def split: if_splits)

lemma strategy3_eq:
  "strategy3 cells title0 auction_url0 =
     (case find_auction_link (row_find_elements cells ''a'') of
        Some link \<Rightarrow>
          (if title0 = []
           then (if strip (elem_text link) \<noteq> [] then strip (elem_text link)
                 else strip (cell_text (cells ! 1)))
           else title0,
           get_attribute link ''href'')
      | None \<Rightarrow>
          (title0,
           if \<not> truthy auction_url0 \<and> row_find_elements cells ''a'' \<noteq> []
           then get_attribute (hd (row_find_elements cells ''a'')) ''href''
           else auction_url0))"
proof (cases "find_auction_link (row_find_elements cells ''a'')")
  case None
  then show ?thesis by (simp add: strategy3_def Let_def)
next
  case (Some link)
  from find_auction_link_Some [OF Some]
  have "row_find_elements cells ''a'' \<noteq> []" and "truthy (get_attribute link ''href'')"
    by auto
  with Some show ?thesis by (simp add: strategy3_def Let_def)
qed

text \<open>The title a row without a link in its description cell gets.\<close>

lemma no_anchor_title:
  assumes "find_element (cells ! 1) ''a'' = None"
  shows "fst (extract_title_url cells) = strip (cell_text (cells ! 1)) \<or>
         (\<exists>link\<in>set (row_find_elements cells ''a'').
            fst (extract_title_url cells) = strip (elem_text link) \<and>
            strip (elem_text link) \<noteq> [])"
    and "fst (extract_title_url_comprehensive cells) = strip (cell_text (cells ! 1)) \<or>
         (\<exists>link\<in>set (row_find_elements cells ''a'').
            fst (extract_title_url_comprehensive cells) = strip (elem_text link) \<and>
            strip (elem_text link) \<noteq> [])"
  using assms
  by (auto simp: extract_title_url_def extract_title_url_comprehensive_def strategy3_eq Let_def
        split: list.splits option.splits dest: find_auction_link_Some)

text \<open>
  Claim C1, as the code has it. (1) If the description cell holds a hyperlink, the title
  is its stripped text and the URL candidate its href, and nothing else runs: an empty
  link text stays empty. (2) Otherwise, if the cell has a clickable descendant, one of
  whose attributes onclick, data-href, data-url, href is non-empty, the title is the
  stripped cell text and the URL candidate the first non-empty of these. (3) Otherwise,
  if the cell has no clickable descendant, the URL candidate is the href of the first
  hyperlink of the row whose href contains itemDetails or auction, else of the first
  hyperlink of the row, else empty; the title is the non-empty stripped text of that
  preferred link, and otherwise the stripped cell text. (4) Without a hyperlink in the
  description cell the title is always the stripped cell text or the non-empty text of
  a hyperlink of the row, whether or not a URL was found. Both files agree on this.
\<close>

theorem title_url_nested_fallback:
  "(\<forall>link. find_element (cells ! 1) ''a'' = Some link \<longrightarrow>
      extract_title_url cells = (strip (elem_text link), get_attribute link ''href'') \<and>
      extract_title_url_comprehensive cells
        = (strip (elem_text link), get_attribute link ''href'')) \<and>
   (\<forall>elem rest.
      find_element (cells ! 1) ''a'' = None \<and>
      filter clickable (descendants (cells ! 1)) = elem # rest \<and> truthy (clickable_url elem) \<longrightarrow>
      extract_title_url cells = (strip (cell_text (cells ! 1)), clickable_url elem) \<and>
      extract_title_url_comprehensive cells = (strip (cell_text (cells ! 1)), clickable_url elem)) \<and>
   (find_element (cells ! 1) ''a'' = None \<and> filter clickable (descendants (cells ! 1)) = [] \<longrightarrow>
      extract_title_url_comprehensive cells = extract_title_url cells \<and>
      extract_title_url cells =
        (case find_auction_link (row_find_elements cells ''a'') of
           Some link \<Rightarrow>
             (if strip (elem_text link) \<noteq> [] then strip (elem_text link)
              else strip (cell_text (cells ! 1)),
              get_attribute link ''href'')
         | None \<Rightarrow>
             (strip (cell_text (cells ! 1)),
              case row_find_elements cells ''a'' of
                [] \<Rightarrow> Some []
              | first # _ \<Rightarrow> get_attribute first ''href''))) \<and>
   (find_element (cells ! 1) ''a'' = None \<longrightarrow>
      (fst (extract_title_url cells) = strip (cell_text (cells ! 1)) \<or>
       (\<exists>link\<in>set (row_find_elements cells ''a'').
          fst (extract_title_url cells) = strip (elem_text link) \<and>
          strip (elem_text link) \<noteq> [])) \<and>
      (fst (extract_title_url_comprehensive cells) = strip (cell_text (cells ! 1)) \<or>
       (\<exists>link\<in>set (row_find_elements cells ''a'').
          fst (extract_title_url_comprehensive cells) = strip (elem_text link) \<and>
          strip (elem_text link) \<noteq> [])))"
proof (intro conjI allI impI)
  fix link
  assume "find_element (cells ! 1) ''a'' = Some link"
  then show "extract_title_url cells = (strip (elem_text link), get_attribute link ''href'')"
    and "extract_title_url_comprehensive cells
           = (strip (elem_text link), get_attribute link ''href'')"
    by (simp_all add: extract_title_url_def extract_title_url_comprehensive_def)
next
  fix elem rest
  assume "find_element (cells ! 1) ''a'' = None \<and>
      filter clickable (descendants (cells ! 1)) = elem # rest \<and> truthy (clickable_url elem)"
  then show "extract_title_url cells = (strip (cell_text (cells ! 1)), clickable_url elem)"
    and "extract_title_url_comprehensive cells
           = (strip (cell_text (cells ! 1)), clickable_url elem)"
    by (simp_all add: extract_title_url_def extract_title_url_comprehensive_def)
next
  assume h: "find_element (cells ! 1) ''a'' = None \<and>
             filter clickable (descendants (cells ! 1)) = []"
  then show "extract_title_url_comprehensive cells = extract_title_url cells"
    by (simp add: extract_title_url_def extract_title_url_comprehensive_def)
  from h show "extract_title_url cells =
        (case find_auction_link (row_find_elements cells ''a'') of
           Some link \<Rightarrow>
             (if strip (elem_text link) \<noteq> [] then strip (elem_text link)
              else strip (cell_text (cells ! 1)),
              get_attribute link ''href'')
         | None \<Rightarrow>
             (strip (cell_text (cells ! 1)),
              case row_find_elements cells ''a'' of
                [] \<Rightarrow> Some []
              | first # _ \<Rightarrow> get_attribute first ''href''))"
    by (auto simp: extract_title_url_def strategy3_eq split: option.splits list.splits)
next
  assume h: "find_element (cells ! 1) ''a'' = None"
  show "fst (extract_title_url cells) = strip (cell_text (cells ! 1)) \<or>
       (\<exists>link\<in>set (row_find_elements cells ''a'').
          fst (extract_title_url cells) = strip (elem_text link) \<and>
          strip (elem_text link) \<noteq> [])"
    by (rule no_anchor_title(1) [OF h])
  show "fst (extract_title_url_comprehensive cells) = strip (cell_text (cells ! 1)) \<or>
       (\<exists>link\<in>set (row_find_elements cells ''a'').
          fst (extract_title_url_comprehensive cells) = strip (elem_text link) \<and>
          strip (elem_text link) \<noteq> [])"
    by (rule no_anchor_title(2) [OF h])
qed

lemma example_rows_shape:
  "find_element (cat_tower_row ! 1) ''a''
     = Some \<lparr>tag_name = ''a'', elem_text = ''Cat Tower'', attributes = [(''href'', ''/item/55'')]\<rparr>"
  "find_element (data_href_row ! 1) ''a'' = None"
  "filter clickable (descendants (data_href_row ! 1))
     = [\<lparr>tag_name = ''span'', elem_text = ''Cat Tower'',
         attributes = [(''data-href'', ''/item/77'')]\<rparr>]"
  "truthy (clickable_url \<lparr>tag_name = ''span'', elem_text = ''Cat Tower'',
                           attributes = [(''data-href'', ''/item/77'')]\<rparr>)"
  "find_element (photo_link_row ! 1) ''a'' = None"
  "filter clickable (descendants (photo_link_row ! 1)) = []"
  by code_simp+

lemma example_rows_values:
  "strip (elem_text \<lparr>tag_name = ''a'', elem_text = ''Cat Tower'',
                      attributes = [(''href'', ''/item/55'')]\<rparr>) = ''Cat Tower''"
  "get_attribute \<lparr>tag_name = ''a'', elem_text = ''Cat Tower'',
                   attributes = [(''href'', ''/item/55'')]\<rparr> ''href'' = Some ''/item/55''"
  "strip (cell_text (data_href_row ! 1)) = ''Cat Tower''"
  "clickable_url \<lparr>tag_name = ''span'', elem_text = ''Cat Tower'',
                   attributes = [(''data-href'', ''/item/77'')]\<rparr> = Some ''/item/77''"
  "fst (extract_title_url photo_link_row) = ''Area Rug''"
  by code_simp+

text \<open>A direct link, a data attribute, and a link in the photo cell.\<close>

theorem title_url_nested_fallback_witness:
  "find_element (cat_tower_row ! 1) ''a''
     = Some \<lparr>tag_name = ''a'', elem_text = ''Cat Tower'', attributes = [(''href'', ''/item/55'')]\<rparr> \<and>
   extract_title_url cat_tower_row = (''Cat Tower'', Some ''/item/55'') \<and>
   (find_element (data_href_row ! 1) ''a'' = None \<and>
    filter clickable (descendants (data_href_row ! 1))
      = [\<lparr>tag_name = ''span'', elem_text = ''Cat Tower'',
          attributes = [(''data-href'', ''/item/77'')]\<rparr>] \<and>
    truthy (clickable_url \<lparr>tag_name = ''span'', elem_text = ''Cat Tower'',
                            attributes = [(''data-href'', ''/item/77'')]\<rparr>)) \<and>
   extract_title_url data_href_row = (''Cat Tower'', Some ''/item/77'') \<and>
   (find_element (photo_link_row ! 1) ''a'' = None \<and>
    filter clickable (descendants (photo_link_row ! 1)) = []) \<and>
   extract_title_url_comprehensive photo_link_row = extract_title_url photo_link_row \<and>
   fst (extract_title_url photo_link_row) = ''Area Rug''"
proof -
  note t1 = title_url_nested_fallback [of cat_tower_row, THEN conjunct1, rule_format,
              OF example_rows_shape(1)]
  note t2 = title_url_nested_fallback [of data_href_row, THEN conjunct2, THEN conjunct1,
              rule_format, OF conjI [OF example_rows_shape(2)
                conjI [OF example_rows_shape(3) example_rows_shape(4)]]]
  note t3 = title_url_nested_fallback [of photo_link_row, THEN conjunct2, THEN conjunct2,
              THEN conjunct1, rule_format,
              OF conjI [OF example_rows_shape(5) example_rows_shape(6)]]
  from t1 have a: "extract_title_url cat_tower_row = (''Cat Tower'', Some ''/item/55'')"
    by (simp only: example_rows_values)
  from t2 have b: "extract_title_url data_href_row = (''Cat Tower'', Some ''/item/77'')"
    by (simp only: example_rows_values)
  from t3 have c: "extract_title_url_comprehensive photo_link_row
                     = extract_title_url photo_link_row"
    by (rule conjunct1)
  from a b c example_rows_shape example_rows_values(5) show ?thesis
    by blast
qed

text \<open>
  Where the two files part: a clickable descendant none of whose attributes gives a URL.
  scraper.py then leaves the URL empty, comprehensive_debug.py goes on to strategy 3.
\<close>

lemma clickable_without_url_differs:
  "extract_title_url bare_link_row = (''Area Rug'', None) \<and>
   extract_title_url_comprehensive bare_link_row
     = (''Area Rug'', Some ''https://www.bidft.auction/itemDetails/9'')"
  by code_simp

text \<open>
  Claim C1 as stated fails: a link in the description cell with no text of its own (it
  wraps an icon) leaves the title empty in both files, where the chain of the claim
  would end with the text of the cell.
\<close>

theorem title_url_chain_counterexample:
  "extract_title_url icon_link_row = ([], Some ''/item/55'') \<and>
   extract_title_url_comprehensive icon_link_row = ([], Some ''/item/55'') \<and>
   title_url_chain icon_link_row = (''Cat Tower'', Some ''/item/55'')"
  by code_simp

section \<open>URL cleaning\<close>

lemma match_url_at_http: "match_url_at s = Some m \<Longrightarrow> startswith m ''http''"
  by (auto simp: match_url_at_def split: if_splits)

lemma re_search_url_http: "re_search_url s = Some m \<Longrightarrow> startswith m ''http''"
  by (induction s) (auto split: option.splits dest: match_url_at_http)

text \<open>What the cleaning does establish: a non-empty url begins with \<open>http\<close>.\<close>

lemma clean_url_http:
  "truthy (clean_url u) \<Longrightarrow> startswith (the (clean_url u)) ''http''"
  by (cases u)
     (auto simp: clean_url_def Let_def split: if_splits option.splits dest: re_search_url_http)

text \<open>
  Claim C2 fails on the code: a URL candidate that begins with \<open>http\<close> without being an
  HTTP(S) URL passes the test \<open>startswith('http')\<close> and is returned as it is.
\<close>

theorem extract_url_not_absolute:
  "map_option url (extract_auction_from_row example_env script_row ''Cat'')
     = Some (Some ''httpGet(55)'') \<and>
   truthy (Some ''httpGet(55)'') \<and>
   \<not> startswith ''httpGet(55)'' ''http://'' \<and> \<not> startswith ''httpGet(55)'' ''https://''"
  by code_simp


end
